theory Spec2Isabelle
  imports Main
begin

section \<open>Python strings\<close>

text \<open>
  A Python \<^verbatim>\<open>str\<close> is modelled by the bytes of its UTF-8 encoding: an ASCII character is one
  byte below 128, any other code point is a lead byte followed by its continuation bytes.
\<close>

definition ascii_lowercase :: string where
  "ascii_lowercase = ''abcdefghijklmnopqrstuvwxyz''"

definition ascii_uppercase :: string where
  "ascii_uppercase = ''ABCDEFGHIJKLMNOPQRSTUVWXYZ''"

text \<open>The case of an ASCII character.\<close>

definition is_lower :: "char \<Rightarrow> bool" where
  "is_lower c = (c \<in> set ascii_lowercase)"

definition is_upper :: "char \<Rightarrow> bool" where
  "is_upper c = (c \<in> set ascii_uppercase)"

definition is_cased :: "char \<Rightarrow> bool" where
  "is_cased c = (is_lower c \<or> is_upper c)"

definition to_upper :: "char \<Rightarrow> char" where
  "to_upper c = (case map_of (zip ascii_lowercase ascii_uppercase) c of Some u \<Rightarrow> u | None \<Rightarrow> c)"

definition to_lower :: "char \<Rightarrow> char" where
  "to_lower c = (case map_of (zip ascii_uppercase ascii_lowercase) c of Some l \<Rightarrow> l | None \<Rightarrow> c)"

text \<open>
  \<^verbatim>\<open>s.upper()\<close> as \<^verbatim>\<open>create\<close> uses it, compared with \<open>Y\<close>: the ASCII letters are upper-cased
  and the bytes of any other code point are left as they are; no code point outside ASCII
  upper-cases to \<open>Y\<close>, so the comparison is the one of the code.
\<close>

definition py_upper :: "string \<Rightarrow> string" where
  "py_upper s = map to_upper s"











text \<open>\<^verbatim>\<open>str(b)\<close> for a bool.\<close>

definition py_str_bool :: "bool \<Rightarrow> string" where
  "py_str_bool b = (if b then ''True'' else ''False'')"

text \<open>\<^verbatim>\<open>str(n)\<close> for an int: decimal digits, with a minus sign below zero.\<close>

definition digit_char :: "nat \<Rightarrow> char" where
  "digit_char d = ''0123456789'' ! (d mod 10)"

fun str_nat :: "nat \<Rightarrow> string" where
  "str_nat n = (if n < 10 then [digit_char n] else str_nat (n div 10) @ [digit_char (n mod 10)])"

declare str_nat.simps [simp del]

definition py_str_int :: "int \<Rightarrow> string" where
  "py_str_int i = (if i < 0 then CHR ''-'' # str_nat (nat (- i)) else str_nat (nat i))"

text \<open>\<^verbatim>\<open>sep.join(xs)\<close>\<close>

fun py_join :: "string \<Rightarrow> string list \<Rightarrow> string" where
  "py_join sep [] = []"
| "py_join sep [x] = x"
| "py_join sep (x # y # ys) = x @ sep @ py_join sep (y # ys)"

section \<open>The chat platform and the management API\<close>

datatype exn = KeyError | TypeError | ValueError | AttributeError

record role =
  role_id :: int
  role_name :: string

text \<open>\<open>member_roles\<close> is \<^verbatim>\<open>member.roles\<close>, the roles the member holds when the command starts.\<close>

record member =
  member_id :: int
  member_roles :: "role list"

text \<open>\<^verbatim>\<open>member.mention\<close>\<close>

definition mention :: "member \<Rightarrow> string" where
  "mention m = ''<@'' @ py_str_int (member_id m) @ ''>''"

record channel =
  channel_id :: int
  channel_name :: string

record category =
  category_id :: int
  category_name :: string
  channels :: "channel list"

text \<open>
  What the commands read of \<^verbatim>\<open>ctx.guild\<close>: its categories, \<^verbatim>\<open>guild.get_role(id)\<close>, and
  \<^verbatim>\<open>get_or_fetch_member(guild, id)\<close>, which is \<open>None\<close> for an id that is no member.
\<close>

record guild =
  categories :: "category list"
  get_role :: "int \<Rightarrow> role option"
  get_or_fetch_member :: "int \<Rightarrow> member option"

text \<open>The JSON objects of the management API, with the keys the commands read.\<close>

record team_user =
  user_id :: int
  is_leader :: bool

record team =
  tid :: int
  tname :: string
  discord_role_id :: int
  users :: "team_user list"

text \<open>The answer of \<^verbatim>\<open>users/{id}/current_team\<close>: keys \<^verbatim>\<open>team\<close> and \<^verbatim>\<open>user_id\<close>.\<close>

record membership =
  cur_team :: team
  cur_user_id :: int

text \<open>
  The management API client \<^verbatim>\<open>bot.code_jam_mgmt_api\<close>, one field per endpoint the commands
  call with \<^verbatim>\<open>raise_for_status=True\<close>. \<open>Inl status\<close> is a \<^verbatim>\<open>ResponseCodeError\<close> with that
  response status; \<open>Inr\<close> is the decoded body.
\<close>

record mgmt_api =
  get_teams :: "nat + team list"
  get_teams_find :: "string \<Rightarrow> nat + team"
  get_current_team :: "int \<Rightarrow> nat + membership"
  delete_team_user :: "int \<Rightarrow> int \<Rightarrow> nat + unit"
  post_team_user :: "int \<Rightarrow> int \<Rightarrow> string \<Rightarrow> nat + unit"

datatype request =
    Get_teams
  | Get_teams_find string
  | Get_current_team int
  | Delete_team_user int int
  | Post_team_user int int string

section \<open>Confirmation views\<close>

record button =
  label :: string
  disabled :: bool

record team_entry =
  entry_member :: member
  entry_is_leader :: bool

text \<open>
  \<^verbatim>\<open>teams = defaultdict(list)\<close>: keys in insertion order. A key is \<open>None\<close> when the reader
  filled a short row's missing field with \<^verbatim>\<open>None\<close>.
\<close>

type_synonym teams = "(string option \<times> team_entry list) list"

text \<open>
  The arguments a view keeps for its callback: \<^verbatim>\<open>callback(ctx, teams, bot)\<close> in
  \<^verbatim>\<open>JamCreationConfirmation\<close>, \<^verbatim>\<open>callback(category_channels, roles)\<close> in
  \<^verbatim>\<open>JamEndConfirmation\<close>.
\<close>

datatype payload =
    Creation_args teams
  | Deletion_args "(category \<times> channel list) list" "role list"

text \<open>
  \<^verbatim>\<open>JamCreationConfirmation\<close> and \<^verbatim>\<open>JamEndConfirmation\<close>: both classes have the same two
  buttons and the same three methods and differ in the callback's arguments only.
  \<open>stopped\<close> is the flag \<^verbatim>\<open>View.stop()\<close> sets.
\<close>

record confirmation =
  cancel_btn :: button
  confirm_btn :: button
  original_author :: int
  args :: payload
  stopped :: bool

datatype colour = Orange | Og_blurple

record embed =
  title :: string
  embed_colour :: colour
  description :: "string option"
  embed_fields :: "(string \<times> string) list"
  footer :: "string option"

datatype log_level = Trace | Info | Error

text \<open>
  What a command or a view does to the outside, in the order it does it. \<open>Api r None\<close> is a
  request that succeeded, \<open>Api r (Some status)\<close> one that raised. \<open>Callback\<close> is the call of a
  view's callback (\<^verbatim>\<open>creation_flow\<close>, \<^verbatim>\<open>deletion_flow\<close>), \<open>Paste\<close> the text handed to
  \<^verbatim>\<open>send_to_paste_service\<close>.
\<close>

datatype event =
    Api request "nat option"
  | Send string
  | Send_view embed confirmation
  | Paste string
  | Log log_level
  | Remove_roles int role
  | Add_roles int role
  | Edit_message confirmation
  | Send_message string bool
  | Callback payload

text \<open>A run: what was done, and the exception that ended it, if one did.\<close>

type_synonym run = "event list \<times> exn option"

definition after :: "event list \<Rightarrow> event list \<times> 'a \<Rightarrow> event list \<times> 'a" where
  "after evs r = (evs @ fst r, snd r)"

definition status_of :: "nat + 'a \<Rightarrow> nat option" where
  "status_of resp = (case resp of Inl status \<Rightarrow> Some status | Inr _ \<Rightarrow> None)"

definition new_confirmation :: "payload \<Rightarrow> int \<Rightarrow> confirmation" where
  "new_confirmation a author =
     \<lparr>cancel_btn = \<lparr>label = ''Cancel'', disabled = False\<rparr>,
      confirm_btn = \<lparr>label = ''Confirm'', disabled = False\<rparr>,
      original_author = author, args = a, stopped = False\<rparr>"

definition cancel :: "confirmation \<Rightarrow> confirmation \<times> event list" where
  "cancel v =
     (let v1 = v\<lparr>cancel_btn := \<lparr>label = ''Cancelled'', disabled = True\<rparr>\<rparr>;
          v2 = v1\<lparr>confirm_btn := (confirm_btn v1)\<lparr>disabled := True\<rparr>\<rparr>
      in (v2\<lparr>stopped := True\<rparr>, [Edit_message v2]))"

definition confirm :: "confirmation \<Rightarrow> confirmation \<times> event list" where
  "confirm v =
     (let v1 = v\<lparr>confirm_btn := \<lparr>label = ''Confirmed'', disabled = True\<rparr>\<rparr>;
          v2 = v1\<lparr>cancel_btn := (cancel_btn v1)\<lparr>disabled := True\<rparr>\<rparr>
      in (v2\<lparr>stopped := True\<rparr>, [Edit_message v2, Callback (args v2)]))"

definition not_your_response :: string where
  "not_your_response =
     '':x: You can'' @ [CHR 0x27] @ ''t interact with someone else'' @ [CHR 0x27]
       @ ''s response. Please run the command yourself!''"

definition interaction_check :: "confirmation \<Rightarrow> int \<Rightarrow> event list \<times> bool" where
  "interaction_check v user =
     (if user \<noteq> original_author v then ([Send_message not_your_response True], False)
      else ([], True))"

datatype item = Cancel | Confirm

text \<open>
  How \<^verbatim>\<open>discord.ui.View\<close> hands an interaction on a button to the class: nothing is
  scheduled once the view is stopped; otherwise \<^verbatim>\<open>interaction_check\<close> runs, and the
  button's method runs when the check allows it. Here the method runs to its end: no other
  interaction arrives before it has ended.
\<close>

definition dispatch_item :: "confirmation \<Rightarrow> item \<times> int \<Rightarrow> confirmation \<times> event list" where
  "dispatch_item v i =
     (if stopped v then (v, [])
      else case interaction_check v (snd i) of
             (evs, allow) \<Rightarrow>
               if \<not> allow then (v, evs)
               else (case (case fst i of Cancel \<Rightarrow> cancel v | Confirm \<Rightarrow> confirm v) of
                       (v', evs') \<Rightarrow> (v', evs @ evs')))"

text \<open>
  The two halves of a button's method. The method runs up to its
  \<^verbatim>\<open>await interaction.response.edit_message(view=self)\<close>; there it is suspended, and the
  view, not yet stopped, goes on receiving interactions; when the edit has been sent the
  method goes on with \<^verbatim>\<open>self.stop()\<close> and, in \<^verbatim>\<open>confirm\<close>, the callback.
\<close>

definition cancel_until_await :: "confirmation \<Rightarrow> confirmation \<times> event list" where
  "cancel_until_await v =
     (let v1 = v\<lparr>cancel_btn := \<lparr>label = ''Cancelled'', disabled = True\<rparr>\<rparr>;
          v2 = v1\<lparr>confirm_btn := (confirm_btn v1)\<lparr>disabled := True\<rparr>\<rparr>
      in (v2, [Edit_message v2]))"

definition cancel_after_await :: "confirmation \<Rightarrow> confirmation \<times> event list" where
  "cancel_after_await v = (v\<lparr>stopped := True\<rparr>, [])"

definition confirm_until_await :: "confirmation \<Rightarrow> confirmation \<times> event list" where
  "confirm_until_await v =
     (let v1 = v\<lparr>confirm_btn := \<lparr>label = ''Confirmed'', disabled = True\<rparr>\<rparr>;
          v2 = v1\<lparr>cancel_btn := (cancel_btn v1)\<lparr>disabled := True\<rparr>\<rparr>
      in (v2, [Edit_message v2]))"

definition confirm_after_await :: "confirmation \<Rightarrow> confirmation \<times> event list" where
  "confirm_after_await v = (v\<lparr>stopped := True\<rparr>, [Callback (args v)])"

text \<open>
  The view together with the methods suspended at their await, oldest first, and what can
  happen next: an interaction on a button arrives, or the \<open>n\<close>-th suspended method goes on.
  An arriving interaction is dispatched as in \<open>dispatch_item\<close>: not at all once the view is
  stopped, and to the button's method only when \<^verbatim>\<open>interaction_check\<close> allows it; the method
  then runs until its await.
\<close>

record gate =
  shown :: confirmation
  suspended :: "item list"

datatype occurrence = Arrives item int | Resumes nat

fun occur :: "gate \<Rightarrow> occurrence \<Rightarrow> gate \<times> event list" where
  "occur g (Arrives it user) =
     (if stopped (shown g) then (g, [])
      else case interaction_check (shown g) user of
             (evs, allow) \<Rightarrow>
               if \<not> allow then (g, evs)
               else (case (case it of Cancel \<Rightarrow> cancel_until_await (shown g)
                                    | Confirm \<Rightarrow> confirm_until_await (shown g)) of
                       (v', evs') \<Rightarrow>
                         (g\<lparr>shown := v', suspended := suspended g @ [it]\<rparr>, evs @ evs')))"
| "occur g (Resumes n) =
     (if n < length (suspended g)
      then (case (case suspended g ! n of Cancel \<Rightarrow> cancel_after_await (shown g)
                                        | Confirm \<Rightarrow> confirm_after_await (shown g)) of
              (v', evs) \<Rightarrow>
                (g\<lparr>shown := v', suspended := take n (suspended g) @ drop (Suc n) (suspended g)\<rparr>,
                 evs))
      else (g, []))"

fun occur_all :: "gate \<Rightarrow> occurrence list \<Rightarrow> gate \<times> event list" where
  "occur_all g [] = (g, [])"
| "occur_all g (x # xs) =
     (case occur g x of (g', evs) \<Rightarrow>
        (case occur_all g' xs of (g'', evs') \<Rightarrow> (g'', evs @ evs')))"

text \<open>
  \<^verbatim>\<open>await view.wait()\<close>: returns once the view is stopped. The list holds the interactions
  that arrive while the command waits; when none is left the view times out, which stops it
  too. Each interaction is handled to its end before the next arrives.
\<close>

fun view_wait :: "confirmation \<Rightarrow> (item \<times> int) list \<Rightarrow> confirmation \<times> event list" where
  "view_wait v [] = (v\<lparr>stopped := True\<rparr>, [])"
| "view_wait v (i # is) =
     (if stopped v then (v, [])
      else case dispatch_item v i of (v', evs) \<Rightarrow>
        (case view_wait v' is of (v'', evs') \<Rightarrow> (v'', evs @ evs')))"

section \<open>The commands of the cog\<close>

subsection \<open>create\<close>

text \<open>
  A row as \<^verbatim>\<open>csv.DictReader\<close> yields it: \<open>None\<close> for a column the header does not have
  (reading it is a KeyError), \<open>Some None\<close> for a field a short row lacks (the reader's
  \<^verbatim>\<open>None\<close>), \<open>Some (Some s)\<close> for text.
\<close>

type_synonym row = "string \<Rightarrow> string option option"

text \<open>\<^verbatim>\<open>d[k].append(v)\<close> on a \<^verbatim>\<open>defaultdict(list)\<close>\<close>

fun defaultdict_append :: "'k \<Rightarrow> 'v \<Rightarrow> ('k \<times> 'v list) list \<Rightarrow> ('k \<times> 'v list) list" where
  "defaultdict_append k v [] = [(k, [v])]"
| "defaultdict_append k v ((k', vs) # d) =
     (if k = k' then (k', vs @ [v]) # d else (k', vs) # defaultdict_append k v d)"

text \<open>
  The loop of \<^verbatim>\<open>create\<close> over the reader's rows (the \<^verbatim>\<open>log.trace\<close> line of a skipped row is
  left out). \<open>to_int\<close> is Python's \<^verbatim>\<open>int\<close> on a \<^verbatim>\<open>str\<close>: the integer it reads, or \<open>None\<close> where
  it raises ValueError.
\<close>

fun create_rows :: "(string \<Rightarrow> int option) \<Rightarrow> guild \<Rightarrow> teams \<Rightarrow> row list \<Rightarrow> exn + teams" where
  "create_rows to_int g teams [] = Inr teams"
| "create_rows to_int g teams (row # rows) =
     (case row ''Team Member Discord ID'' of
        None \<Rightarrow> Inl KeyError
      | Some None \<Rightarrow> Inl TypeError
      | Some (Some text) \<Rightarrow>
          (case to_int text of
             None \<Rightarrow> Inl ValueError
           | Some i \<Rightarrow>
               (case get_or_fetch_member g i of
                  None \<Rightarrow> create_rows to_int g teams rows
                | Some m \<Rightarrow>
                    (case row ''Team Name'' of
                       None \<Rightarrow> Inl KeyError
                     | Some team_key \<Rightarrow>
                         (case row ''Team Leader'' of
                            None \<Rightarrow> Inl KeyError
                          | Some None \<Rightarrow> Inl AttributeError
                          | Some (Some flag) \<Rightarrow>
                              create_rows to_int g
                                (defaultdict_append team_key
                                   \<lparr>entry_member = m, entry_is_leader = (py_upper flag = ''Y'')\<rparr>
                                   teams)
                                rows)))))"

text \<open>\<^verbatim>\<open>create\<close>, from the rows of the roster on.\<close>

definition create :: "(string \<Rightarrow> int option) \<Rightarrow> guild \<Rightarrow> int \<Rightarrow> row list \<Rightarrow> run" where
  "create to_int g author rows =
     (case create_rows to_int g [] rows of
        Inl e \<Rightarrow> ([], Some e)
      | Inr teams \<Rightarrow>
          ([Send_view
              \<lparr>title = ''Warning!'', embed_colour = Orange,
               description = Some (str_nat (length teams)
                                   @ '' teams, and roles will be created, are you sure?''),
               embed_fields = [], footer = Some ''Code Jam team generation''\<rparr>
              (new_confirmation (Creation_args teams) author)],
           None))"

subsection \<open>end\<close>

text \<open>\<open>CATEGORY_NAME\<close> is \<^verbatim>\<open>_creation_utils.CATEGORY_NAME\<close>.\<close>

definition jam_categories :: "string \<Rightarrow> guild \<Rightarrow> category list" where
  "jam_categories CATEGORY_NAME g =
     filter (\<lambda>category. category_name category = CATEGORY_NAME) (categories g)"

definition jam_roles :: "guild \<Rightarrow> mgmt_api \<Rightarrow> event list \<times> role list option" where
  "jam_roles g mgmt_client =
     (case get_teams mgmt_client of
        Inl status \<Rightarrow> ([Api Get_teams (Some status), Log Error], None)
      | Inr roles_raw \<Rightarrow>
          ([Api Get_teams None],
           Some (List.map_filter (\<lambda>t. get_role g (discord_role_id t)) roles_raw)))"

text \<open>\<^verbatim>\<open>d[k] = v\<close> on a dict\<close>

fun dict_set :: "'k \<Rightarrow> 'v \<Rightarrow> ('k \<times> 'v) list \<Rightarrow> ('k \<times> 'v) list" where
  "dict_set k v [] = [(k, v)]"
| "dict_set k v ((k', v') # d) = (if k = k' then (k', v) # d else (k', v') # dict_set k v d)"

definition end_details :: "(category \<times> channel list) list \<Rightarrow> role list \<Rightarrow> string" where
  "end_details category_channels roles =
     ''Categories and Channels: '' @ [CHR 0x0A]
     @ concat (map (\<lambda>(category, chans).
                      category_name category @ ''['' @ py_str_int (category_id category) @ '']: ''
                      @ py_join '','' (map channel_name chans) @ [CHR 0x0A])
                 category_channels)
     @ ''Roles:'' @ [CHR 0x0A]
     @ concat (map (\<lambda>r. role_name r @ ''['' @ py_str_int (role_id r) @ '']'' @ [CHR 0x0A]) roles)"

definition already_deleted :: string where
  "already_deleted = '':x: The Code Jam channels and roles have already been deleted! ''"

definition officially_ended :: string where
  "officially_ended = ''Code Jam has officially ended! :sunrise:''"

definition unable_to_paste :: string where
  "unable_to_paste = ''**Unable to send deletion details to the pasting service.**''"

definition detailed_list_see :: string where
  "detailed_list_see =
     ''For a detailed list of which roles, categories and channels will be deleted see:''"

text \<open>
  The command \<^verbatim>\<open>end\<close>. \<open>send_to_paste_service\<close> is the function of \<^verbatim>\<open>bot.services\<close>;
  \<open>interactions\<close> are the button presses that reach the view while the command waits.
\<close>

definition codejam_end ::
  "string \<Rightarrow> (string \<Rightarrow> string option) \<Rightarrow> mgmt_api \<Rightarrow> guild \<Rightarrow> int \<Rightarrow> (item \<times> int) list \<Rightarrow> run"
where
  "codejam_end CATEGORY_NAME send_to_paste_service api g author interactions =
     (let cats = jam_categories CATEGORY_NAME g;
          looked_up = jam_roles g api;
          evs = fst looked_up;
          roles = snd looked_up
      in if cats = [] \<and> (roles = None \<or> roles = Some [])
         then (evs @ [Send already_deleted], None)
         else (let category_channels =
                     foldl (\<lambda>d category. dict_set category (channels category) d) [] cats
               in (case roles of
                     None \<Rightarrow> (evs, Some TypeError)
                   | Some rs \<Rightarrow>
                       (let details = end_details category_channels rs;
                            url = (case send_to_paste_service details of
                                     None \<Rightarrow> unable_to_paste
                                   | Some u \<Rightarrow> (if u = [] then unable_to_paste else u));
                            warning_embed =
                              \<lparr>title = ''Are you sure?'', embed_colour = Orange,
                               description = None,
                               embed_fields = [(detailed_list_see, url)],
                               footer = None\<rparr>;
                            confirm_view =
                              new_confirmation (Deletion_args category_channels rs) author
                        in (evs @ [Paste details, Send_view warning_embed confirm_view]
                              @ snd (view_wait confirm_view interactions)
                              @ [Send officially_ended],
                            None)))))"

subsection \<open>move and remove\<close>

definition something_went_wrong :: string where
  "something_went_wrong =
     ''Something went wrong while processing the request! We have notified the team!''"

definition not_a_participant :: string where
  "not_a_participant = '':x: It seems like the user is not a participant!''"

definition could_not_be_found :: string where
  "could_not_be_found = '':x: Team or user could not be found!''"

definition not_part_of_the_team :: string where
  "not_part_of_the_team =
     '':x: The member given is not part of the team! (Might have been removed already)''"

text \<open>The loop of \<^verbatim>\<open>move\<close> that decides \<^verbatim>\<open>is_leader\<close>, started with \<open>False\<close>.\<close>

fun leader_scan :: "bool \<Rightarrow> int \<Rightarrow> team_user list \<Rightarrow> bool" where
  "leader_scan flag uid [] = flag"
| "leader_scan flag uid (memb # members) =
     leader_scan (if user_id memb = uid \<and> is_leader memb then True else flag) uid members"

text \<open>
  In the branch for status 400 of the insertion, the message reads
  \<^verbatim>\<open>team_to_move_in['team']\<close>, a key the team object does not have.
\<close>

definition move :: "mgmt_api \<Rightarrow> guild \<Rightarrow> member \<Rightarrow> string \<Rightarrow> run" where
  "move api g m new_team_name =
     (case get_teams_find api new_team_name of
        Inl status \<Rightarrow>
          (Api (Get_teams_find new_team_name) (Some status) #
             (if status = 404
              then [Send ('':x: Team `'' @ new_team_name @ ''` does not exists in the database!'')]
              else [Send something_went_wrong, Log Error]),
           None)
      | Inr team_to_move_in \<Rightarrow>
          after [Api (Get_teams_find new_team_name) None]
          (case get_current_team api (member_id m) of
             Inl status \<Rightarrow>
               (Api (Get_current_team (member_id m)) (Some status) #
                  (if status = 404 then [Send not_a_participant]
                   else [Send something_went_wrong, Log Error]),
                None)
           | Inr team \<Rightarrow>
               after [Api (Get_current_team (member_id m)) None]
               (case delete_team_user api (tid (cur_team team)) (cur_user_id team) of
                  Inl status \<Rightarrow>
                    (Api (Delete_team_user (tid (cur_team team)) (cur_user_id team)) (Some status) #
                       (if status = 404 then [Send could_not_be_found]
                        else if status = 400 then [Send not_part_of_the_team]
                        else [Send something_went_wrong, Log Error]),
                     None)
                | Inr _ \<Rightarrow>
                    after [Api (Delete_team_user (tid (cur_team team)) (cur_user_id team)) None]
                    (case get_role g (discord_role_id (cur_team team)) of
                       None \<Rightarrow> ([], Some AttributeError)
                     | Some team_role \<Rightarrow>
                         after [Remove_roles (member_id m) team_role]
                         (let leader = leader_scan False (member_id m) (users (cur_team team)) in
                          case post_team_user api (tid team_to_move_in) (member_id m)
                                 (py_str_bool leader) of
                            Inl status \<Rightarrow>
                              after [Api (Post_team_user (tid team_to_move_in) (member_id m)
                                            (py_str_bool leader)) (Some status)]
                              (if status = 404
                               then ([Send '':x: Team or user could not be found.'', Log Info], None)
                               else if status = 400 then ([], Some KeyError)
                               else ([Send something_went_wrong, Log Error], None))
                          | Inr _ \<Rightarrow>
                              after [Api (Post_team_user (tid team_to_move_in) (member_id m)
                                            (py_str_bool leader)) None]
                              (case get_role g (discord_role_id team_to_move_in) of
                                 None \<Rightarrow> ([], Some AttributeError)
                               | Some new_role \<Rightarrow>
                                   ([Add_roles (member_id m) new_role,
                                     Send (''Success! Participant '' @ mention m
                                           @ '' has been moved from '' @ tname (cur_team team)
                                           @ '' to '' @ tname team_to_move_in)],
                                    None)))))))"

text \<open>\<open>TEAM_LEADER_ROLE_NAME\<close> is the constant of \<^verbatim>\<open>_flows\<close>.\<close>

definition remove :: "string \<Rightarrow> mgmt_api \<Rightarrow> guild \<Rightarrow> member \<Rightarrow> run" where
  "remove TEAM_LEADER_ROLE_NAME api g m =
     (case get_current_team api (member_id m) of
        Inl status \<Rightarrow>
          (Api (Get_current_team (member_id m)) (Some status) #
             (if status = 404 then [Send not_a_participant]
              else [Send something_went_wrong, Log Error]),
           None)
      | Inr team \<Rightarrow>
          after [Api (Get_current_team (member_id m)) None]
          (case delete_team_user api (tid (cur_team team)) (cur_user_id team) of
             Inl status \<Rightarrow>
               (Api (Delete_team_user (tid (cur_team team)) (cur_user_id team)) (Some status) #
                  (if status = 404 then [Send could_not_be_found]
                   else if status = 400 then [Send not_part_of_the_team]
                   else [Send something_went_wrong, Log Error]),
                None)
           | Inr _ \<Rightarrow>
               after [Api (Delete_team_user (tid (cur_team team)) (cur_user_id team)) None]
               (case get_role g (discord_role_id (cur_team team)) of
                  None \<Rightarrow> ([], Some AttributeError)
                | Some team_role \<Rightarrow>
                    (Remove_roles (member_id m) team_role #
                       map (Remove_roles (member_id m))
                         (filter (\<lambda>r. role_name r = TEAM_LEADER_ROLE_NAME) (member_roles m))
                       @ [Send (''Successfully removed '' @ mention m @ '' from team ''
                                @ tname (cur_team team))],
                     None))))"

subsection \<open>team_name\<close>



section \<open>Reading a run\<close>

text \<open>
  The roles a member holds on the chat platform after the events of a run:
  \<^verbatim>\<open>remove_roles\<close> takes the role away, \<^verbatim>\<open>add_roles\<close> grants it.
\<close>

fun apply_role_event :: "int \<Rightarrow> role list \<Rightarrow> event \<Rightarrow> role list" where
  "apply_role_event uid rs (Remove_roles u r) =
     (if u = uid then filter (\<lambda>x. role_id x \<noteq> role_id r) rs else rs)"
| "apply_role_event uid rs (Add_roles u r) =
     (if u = uid \<and> role_id r \<notin> set (map role_id rs) then rs @ [r] else rs)"
| "apply_role_event uid rs _ = rs"

definition roles_after :: "int \<Rightarrow> role list \<Rightarrow> event list \<Rightarrow> role list" where
  "roles_after uid rs evs = foldl (apply_role_event uid) rs evs"

fun is_role_event :: "event \<Rightarrow> bool" where
  "is_role_event (Remove_roles _ _) = True"
| "is_role_event (Add_roles _ _) = True"
| "is_role_event _ = False"

fun is_send :: "event \<Rightarrow> bool" where
  "is_send (Send _) = True"
| "is_send _ = False"

fun is_callback :: "event \<Rightarrow> bool" where
  "is_callback (Callback _) = True"
| "is_callback _ = False"

fun is_view :: "event \<Rightarrow> bool" where
  "is_view (Send_view _ _) = True"
| "is_view _ = False"

text \<open>A request that changed the membership records: a deletion or an insertion that succeeded.\<close>

fun is_membership_change :: "event \<Rightarrow> bool" where
  "is_membership_change (Api (Delete_team_user _ _) None) = True"
| "is_membership_change (Api (Post_team_user _ _ _) None) = True"
| "is_membership_change _ = False"

fun is_deleted :: "event \<Rightarrow> bool" where
  "is_deleted (Api (Delete_team_user _ _) None) = True"
| "is_deleted _ = False"

fun is_insertion :: "event \<Rightarrow> bool" where
  "is_insertion (Api (Post_team_user _ _ _) _) = True"
| "is_insertion _ = False"

text \<open>The events of a run before its first deletion that succeeded.\<close>

definition before_deletion :: "event list \<Rightarrow> event list" where
  "before_deletion evs = takeWhile (\<lambda>e. \<not> is_deleted e) evs"


section \<open>The roster, in the words of the specification\<close>

text \<open>
  The member a row's id resolves to, the id read by \<open>to_int\<close>: \<open>None\<close> when the id is no
  member of the guild (or the field is no number).
\<close>

definition resolved_member :: "(string \<Rightarrow> int option) \<Rightarrow> guild \<Rightarrow> row \<Rightarrow> member option" where
  "resolved_member to_int g row =
     (case row ''Team Member Discord ID'' of
        Some (Some text) \<Rightarrow> (case to_int text of Some i \<Rightarrow> get_or_fetch_member g i | None \<Rightarrow> None)
      | _ \<Rightarrow> None)"

text \<open>A row with an unresolvable member id: the id is a number and no member has it.\<close>

definition unresolvable :: "(string \<Rightarrow> int option) \<Rightarrow> guild \<Rightarrow> row \<Rightarrow> bool" where
  "unresolvable to_int g row =
     (case row ''Team Member Discord ID'' of
        Some (Some text) \<Rightarrow>
          (case to_int text of Some i \<Rightarrow> get_or_fetch_member g i = None | None \<Rightarrow> False)
      | _ \<Rightarrow> False)"

text \<open>
  The RosterRow of a row: its team name, the member its id resolves to, and the leader flag,
  true iff the field is \<open>Y\<close> in either case. A row whose member does not resolve has none.
\<close>

definition roster_row :: "(string \<Rightarrow> int option) \<Rightarrow> guild \<Rightarrow> row \<Rightarrow> (string option \<times> team_entry) option" where
  "roster_row to_int g row =
     (case resolved_member to_int g row of
        None \<Rightarrow> None
      | Some m \<Rightarrow>
          (case row ''Team Name'' of
             None \<Rightarrow> None
           | Some team_key \<Rightarrow>
               (case row ''Team Leader'' of
                  Some (Some flag) \<Rightarrow>
                    Some (team_key,
                          \<lparr>entry_member = m, entry_is_leader = (flag = ''Y'' \<or> flag = ''y'')\<rparr>)
                | _ \<Rightarrow> None)))"

definition roster :: "(string \<Rightarrow> int option) \<Rightarrow> guild \<Rightarrow> row list \<Rightarrow> (string option \<times> team_entry) list" where
  "roster to_int g rows = List.map_filter (roster_row to_int g) rows"

text \<open>The entries of one team, in the order of the rows.\<close>

definition entries_of :: "'k \<Rightarrow> ('k \<times> 'v) list \<Rightarrow> 'v list" where
  "entries_of k ps = map snd (filter (\<lambda>p. fst p = k) ps)"

text \<open>Grouping: every pair appended under its key, one after the other.\<close>

definition grouped :: "('k \<times> 'v list) list \<Rightarrow> ('k \<times> 'v) list \<Rightarrow> ('k \<times> 'v list) list" where
  "grouped acc ps = foldl (\<lambda>d p. defaultdict_append (fst p) (snd p) d) acc ps"

section \<open>Sample inputs\<close>

definition role_a :: role where
  "role_a = \<lparr>role_id = 20, role_name = ''Team A''\<rparr>"

definition role_b :: role where
  "role_b = \<lparr>role_id = 21, role_name = ''Team B''\<rparr>"

definition leader_role :: role where
  "leader_role = \<lparr>role_id = 22, role_name = ''Team Leader''\<rparr>"

definition alice :: member where
  "alice = \<lparr>member_id = 1, member_roles = [role_a, leader_role]\<rparr>"

definition bob :: member where
  "bob = \<lparr>member_id = 2, member_roles = [role_a]\<rparr>"

definition carol :: member where
  "carol = \<lparr>member_id = 3, member_roles = []\<rparr>"

definition team_a :: team where
  "team_a = \<lparr>tid = 5, tname = ''Team A'', discord_role_id = 20,
             users = [\<lparr>user_id = 1, is_leader = True\<rparr>, \<lparr>user_id = 2, is_leader = False\<rparr>]\<rparr>"

definition team_b :: team where
  "team_b = \<lparr>tid = 6, tname = ''Team B'', discord_role_id = 21, users = []\<rparr>"

definition jam_guild :: guild where
  "jam_guild =
     \<lparr>categories =
        [\<lparr>category_id = 10, category_name = ''Code Jam'',
          channels = [\<lparr>channel_id = 11, channel_name = ''team-a''\<rparr>]\<rparr>],
      get_role = (\<lambda>i. if i = 20 then Some role_a else if i = 21 then Some role_b
                       else if i = 22 then Some leader_role else None),
      get_or_fetch_member = (\<lambda>i. if i = 1 then Some alice else if i = 2 then Some bob
                                   else if i = 3 then Some carol else None)\<rparr>"

definition empty_guild :: guild where
  "empty_guild = \<lparr>categories = [], get_role = (\<lambda>i. None), get_or_fetch_member = (\<lambda>i. None)\<rparr>"

definition working_api :: mgmt_api where
  "working_api =
     \<lparr>get_teams = Inr [team_a, team_b],
      get_teams_find = (\<lambda>n. if n = ''Team B'' then Inr team_b else Inl 404),
      get_current_team =
        (\<lambda>u. if u = 1 \<or> u = 2 then Inr \<lparr>cur_team = team_a, cur_user_id = u\<rparr> else Inl 404),
      delete_team_user = (\<lambda>t u. Inr ()),
      post_team_user = (\<lambda>t u l. Inr ())\<rparr>"

definition record_gone_api :: mgmt_api where
  "record_gone_api = working_api\<lparr>delete_team_user := (\<lambda>t u. Inl 404)\<rparr>"

definition no_teams_api :: mgmt_api where
  "no_teams_api =
     \<lparr>get_teams = Inr [], get_teams_find = (\<lambda>n. Inl 404), get_current_team = (\<lambda>u. Inl 404),
      delete_team_user = (\<lambda>t u. Inl 404), post_team_user = (\<lambda>t u l. Inl 404)\<rparr>"


text \<open>
  A reading of the ids of the samples: the value of a text of ASCII digits, which is what
  \<^verbatim>\<open>int\<close> gives for it; no other text is read.
\<close>

fun decimal_value :: "int \<Rightarrow> string \<Rightarrow> int option" where
  "decimal_value n [] = Some n"
| "decimal_value n (c # cs) =
     (case map_of (zip ''0123456789'' [0, 1, 2, 3, 4, 5, 6, 7, 8, 9]) c of
        None \<Rightarrow> None
      | Some d \<Rightarrow> decimal_value (10 * n + d) cs)"

definition plain_decimal :: "string \<Rightarrow> int option" where
  "plain_decimal text = (if text = [] then None else decimal_value 0 text)"

definition roster_line :: "string \<Rightarrow> string \<Rightarrow> string \<Rightarrow> row" where
  "roster_line team_key discord_id leader =
     (\<lambda>column. if column = ''Team Name'' then Some (Some team_key)
               else if column = ''Team Member Discord ID'' then Some (Some discord_id)
               else if column = ''Team Leader'' then Some (Some leader)
               else None)"

definition sample_roster :: "row list" where
  "sample_roster =
     [roster_line ''A'' ''1'' ''y'', roster_line ''C'' ''99'' ''Y'',
      roster_line ''B'' ''3'' ''N'', roster_line ''A'' ''2'' []]"

definition sample_teams :: teams where
  "sample_teams =
     [(Some ''A'', [\<lparr>entry_member = alice, entry_is_leader = True\<rparr>,
                    \<lparr>entry_member = bob, entry_is_leader = False\<rparr>]),
      (Some ''B'', [\<lparr>entry_member = carol, entry_is_leader = False\<rparr>])]"

lemmas sample_defs = role_a_def role_b_def leader_role_def alice_def bob_def carol_def team_a_def
  team_b_def jam_guild_def empty_guild_def working_api_def record_gone_api_def no_teams_api_def


section \<open>Characters and the title case\<close>

lemmas char_defs = to_upper_def to_lower_def is_lower_def is_upper_def is_cased_def
  ascii_lowercase_def ascii_uppercase_def



























section \<open>Confirming and refusing\<close>

lemma dispatch_item_stopped: "stopped v \<Longrightarrow> dispatch_item v i = (v, [])"
  by (simp add: dispatch_item_def)



lemma cancel_in_halves:
  "cancel v = (case cancel_until_await v of (v1, evs1) \<Rightarrow>
                (case cancel_after_await v1 of (v2, evs2) \<Rightarrow> (v2, evs1 @ evs2)))"
  by (simp add: cancel_def cancel_until_await_def cancel_after_await_def Let_def)

lemma confirm_in_halves:
  "confirm v = (case confirm_until_await v of (v1, evs1) \<Rightarrow>
                 (case confirm_after_await v1 of (v2, evs2) \<Rightarrow> (v2, evs1 @ evs2)))"
  by (simp add: confirm_def confirm_until_await_def confirm_after_await_def Let_def)

lemma dispatch_item_occurs:
  "dispatch_item v (it, user)
     = (case occur_all \<lparr>shown = v, suspended = []\<rparr> [Arrives it user, Resumes 0] of
          (g, evs) \<Rightarrow> (shown g, evs))"
  by (cases it)
     (simp_all add: dispatch_item_def interaction_check_def cancel_def confirm_def
        cancel_until_await_def cancel_after_await_def confirm_until_await_def
        confirm_after_await_def Let_def)

text \<open>
  C4 fails on the code. On a fresh \<^verbatim>\<open>JamCreationConfirmation\<close> of author 1, a second
  Confirm by the author that arrives while the first \<^verbatim>\<open>confirm\<close> is suspended at its await
  (the view is not yet stopped, and no method looks at \<open>disabled\<close>) is accepted as well: when
  both methods have gone on, the callback has been called twice. Only when the first method
  has ended before the second Confirm arrives is the callback called once.
\<close>

theorem confirm_during_await_calls_back_twice:
  "filter is_callback
     (snd (occur_all \<lparr>shown = new_confirmation (Creation_args sample_teams) 1, suspended = []\<rparr>
             [Arrives Confirm 1, Arrives Confirm 1, Resumes 0, Resumes 0]))
     = [Callback (Creation_args sample_teams), Callback (Creation_args sample_teams)]
   \<and> filter is_callback
     (snd (occur_all \<lparr>shown = new_confirmation (Creation_args sample_teams) 1, suspended = []\<rparr>
             [Arrives Confirm 1, Resumes 0, Arrives Confirm 1, Resumes 0]))
     = [Callback (Creation_args sample_teams)]"
  by (simp add: new_confirmation_def interaction_check_def confirm_until_await_def
        confirm_after_await_def Let_def)

text \<open>
  C7. An interaction by a user other than the original author fails the check, which sends
  the notice to that user alone; on a pending view nothing else happens: the view is
  unchanged (its buttons as they were, not stopped) and no callback is called.
\<close>

theorem foreign_interaction_rejected:
  assumes "user \<noteq> original_author v"
  shows "interaction_check v user = ([Send_message not_your_response True], False)
         \<and> (\<not> stopped v \<longrightarrow>
              dispatch_item v (it, user) = (v, [Send_message not_your_response True])
              \<and> filter is_callback (snd (dispatch_item v (it, user))) = [])"
  using assms by (simp add: interaction_check_def dispatch_item_def)

text \<open>The theorem on a fresh view of author 1 and a Confirm by user 2.\<close>

theorem foreign_interaction_rejected_witness:
  "(2::int) \<noteq> original_author (new_confirmation (Creation_args []) 1)
   \<and> \<not> stopped (new_confirmation (Creation_args []) 1)
   \<and> dispatch_item (new_confirmation (Creation_args []) 1) (Confirm, 2)
       = (new_confirmation (Creation_args []) 1, [Send_message not_your_response True])
   \<and> \<not> disabled (confirm_btn (fst (dispatch_item (new_confirmation (Creation_args []) 1) (Confirm, 2))))
   \<and> \<not> disabled (cancel_btn (fst (dispatch_item (new_confirmation (Creation_args []) 1) (Confirm, 2))))"
proof -
  let ?v = "new_confirmation (Creation_args []) 1"
  have u: "(2::int) \<noteq> original_author ?v" by (simp add: new_confirmation_def)
  have p: "\<not> stopped ?v" by (simp add: new_confirmation_def)
  from foreign_interaction_rejected [OF u, of Confirm] p
  have d: "dispatch_item ?v (Confirm, 2) = (?v, [Send_message not_your_response True])" by simp
  show ?thesis unfolding d using u p by (simp add: new_confirmation_def)
qed

section \<open>Ending the jam\<close>





lemma jam_roles_quiet:
  "filter is_view (fst (jam_roles g api)) = []"
  "filter is_callback (fst (jam_roles g api)) = []"
  "filter is_send (fst (jam_roles g api)) = []"
  by (simp_all add: jam_roles_def split: sum.splits)


text \<open>
  C8. With no jam category in the guild and no jam role found (an empty list of roles, or
  none because the request failed), \<^verbatim>\<open>end\<close> sends the already-deleted message and returns:
  it presents no view, and no callback, hence no deletion, is called.
\<close>

theorem end_refused_when_nothing_to_delete:
  assumes "jam_categories CATEGORY_NAME g = []"
    and "snd (jam_roles g api) = None \<or> snd (jam_roles g api) = Some []"
  shows "codejam_end CATEGORY_NAME paste api g author interactions
           = (fst (jam_roles g api) @ [Send already_deleted], None)
         \<and> filter is_send (fst (codejam_end CATEGORY_NAME paste api g author interactions))
             = [Send already_deleted]
         \<and> filter is_view (fst (codejam_end CATEGORY_NAME paste api g author interactions)) = []
         \<and> filter is_callback (fst (codejam_end CATEGORY_NAME paste api g author interactions)) = []"
proof -
  have run: "codejam_end CATEGORY_NAME paste api g author interactions
           = (fst (jam_roles g api) @ [Send already_deleted], None)"
    using assms by (auto simp: codejam_end_def Let_def)
  show ?thesis unfolding run by (simp add: jam_roles_quiet)
qed



text \<open>The theorem on a guild without categories and an API without teams.\<close>

theorem end_refused_when_nothing_to_delete_witness:
  "jam_categories ''Code Jam'' empty_guild = []
   \<and> snd (jam_roles empty_guild no_teams_api) = Some []
   \<and> codejam_end ''Code Jam'' (\<lambda>text. None) no_teams_api empty_guild 1 [(Confirm, 1)]
       = ([Api Get_teams None, Send already_deleted], None)"
proof -
  have c: "jam_categories ''Code Jam'' empty_guild = []"
    by (simp add: jam_categories_def empty_guild_def)
  have r: "jam_roles empty_guild no_teams_api = ([Api Get_teams None], Some [])"
    by (simp add: jam_roles_def no_teams_api_def List.map_filter_simps)
  then have r': "snd (jam_roles empty_guild no_teams_api) = None
                 \<or> snd (jam_roles empty_guild no_teams_api) = Some []"
    by simp
  from end_refused_when_nothing_to_delete [OF c r', of "\<lambda>text. None" 1 "[(Confirm, 1)]"]
  show ?thesis using c r by simp
qed


section \<open>Moving and removing a member\<close>

lemma roles_after_no_role_event:
  "filter is_role_event evs = [] \<Longrightarrow> roles_after uid rs evs = rs"
proof (induction evs arbitrary: rs)
  case Nil
  show ?case by (simp add: roles_after_def)
next
  case (Cons e evs)
  from Cons.prems have e: "\<not> is_role_event e" and rest: "filter is_role_event evs = []"
    by (auto split: if_splits)
  from e have "apply_role_event uid rs e = rs" by (cases e) simp_all
  with Cons.IH [OF rest, of rs] show ?case by (simp add: roles_after_def)
qed

lemma leader_scan_eq:
  "leader_scan flag uid members
     = (flag \<or> (\<exists>memb \<in> set members. user_id memb = uid \<and> is_leader memb))"
  by (induction members arbitrary: flag) auto

lemma move_roles_after_deletion:
  "filter is_role_event (before_deletion (fst (move api g m name))) = []"
  by (simp add: move_def after_def before_deletion_def Let_def split: sum.splits option.splits)

lemma move_find_failed:
  "get_teams_find api name = Inl st \<Longrightarrow>
   snd (move api g m name) = None
   \<and> filter is_role_event (fst (move api g m name)) = []
   \<and> filter is_membership_change (fst (move api g m name)) = []
   \<and> (\<exists>text. filter is_send (fst (move api g m name)) = [Send text])"
  by (simp add: move_def)

lemma move_current_failed:
  "get_current_team api (member_id m) = Inl st \<Longrightarrow>
   snd (move api g m name) = None
   \<and> filter is_role_event (fst (move api g m name)) = []
   \<and> filter is_membership_change (fst (move api g m name)) = []
   \<and> (\<exists>text. filter is_send (fst (move api g m name)) = [Send text])"
  by (simp add: move_def after_def split: sum.splits)

lemma move_delete_failed:
  "get_current_team api (member_id m) = Inr team \<Longrightarrow>
   delete_team_user api (tid (cur_team team)) (cur_user_id team) = Inl st \<Longrightarrow>
   snd (move api g m name) = None
   \<and> filter is_role_event (fst (move api g m name)) = []
   \<and> filter is_membership_change (fst (move api g m name)) = []
   \<and> (\<exists>text. filter is_send (fst (move api g m name)) = [Send text])"
  by (simp add: move_def after_def split: sum.splits)

text \<open>
  C1. In every run of \<^verbatim>\<open>move\<close> no role is removed or granted before a deletion of the
  membership record has succeeded. When the lookup of the target team, the lookup of the
  current team or the deletion fails, with whatever status, the command returns after one
  message: no role is removed or granted, the member holds the roles held before, and no
  membership record was deleted or inserted.
\<close>

theorem move_roles_wait_for_deletion:
  "filter is_role_event (before_deletion (fst (move api g m name))) = []
   \<and> ((\<exists>st. get_teams_find api name = Inl st)
        \<or> (\<exists>st. get_current_team api (member_id m) = Inl st)
        \<or> (\<exists>team st. get_current_team api (member_id m) = Inr team
              \<and> delete_team_user api (tid (cur_team team)) (cur_user_id team) = Inl st)
      \<longrightarrow> snd (move api g m name) = None
          \<and> (\<exists>text. filter is_send (fst (move api g m name)) = [Send text])
          \<and> filter is_role_event (fst (move api g m name)) = []
          \<and> roles_after (member_id m) (member_roles m) (fst (move api g m name)) = member_roles m
          \<and> filter is_membership_change (fst (move api g m name)) = [])"
proof (intro conjI impI)
  show "filter is_role_event (before_deletion (fst (move api g m name))) = []"
    by (rule move_roles_after_deletion)
next
  assume "(\<exists>st. get_teams_find api name = Inl st)
        \<or> (\<exists>st. get_current_team api (member_id m) = Inl st)
        \<or> (\<exists>team st. get_current_team api (member_id m) = Inr team
              \<and> delete_team_user api (tid (cur_team team)) (cur_user_id team) = Inl st)"
  then have all: "snd (move api g m name) = None
   \<and> filter is_role_event (fst (move api g m name)) = []
   \<and> filter is_membership_change (fst (move api g m name)) = []
   \<and> (\<exists>text. filter is_send (fst (move api g m name)) = [Send text])"
    using move_find_failed move_current_failed move_delete_failed by blast
  then show "snd (move api g m name) = None"
    and "\<exists>text. filter is_send (fst (move api g m name)) = [Send text]"
    and "filter is_role_event (fst (move api g m name)) = []"
    and "filter is_membership_change (fst (move api g m name)) = []"
    by simp_all
  from all show "roles_after (member_id m) (member_roles m) (fst (move api g m name)) = member_roles m"
    by (simp add: roles_after_no_role_event)
qed

text \<open>The theorem on a move where the deletion answers 404.\<close>

theorem move_roles_wait_for_deletion_witness:
  "(\<exists>team st. get_current_team record_gone_api (member_id alice) = Inr team
       \<and> delete_team_user record_gone_api (tid (cur_team team)) (cur_user_id team) = Inl st)
   \<and> roles_after (member_id alice) (member_roles alice)
        (fst (move record_gone_api jam_guild alice ''Team B'')) = [role_a, leader_role]
   \<and> filter is_membership_change (fst (move record_gone_api jam_guild alice ''Team B'')) = []"
proof -
  have h: "\<exists>team st. get_current_team record_gone_api (member_id alice) = Inr team
       \<and> delete_team_user record_gone_api (tid (cur_team team)) (cur_user_id team) = Inl st"
    by (simp add: sample_defs)
  have r: "member_roles alice = [role_a, leader_role]" by (simp add: alice_def)
  from move_roles_wait_for_deletion [of record_gone_api jam_guild alice "''Team B''"] h
  have "roles_after (member_id alice) (member_roles alice)
          (fst (move record_gone_api jam_guild alice ''Team B'')) = member_roles alice
        \<and> filter is_membership_change (fst (move record_gone_api jam_guild alice ''Team B'')) = []"
    by blast
  with h r show ?thesis by simp
qed

lemma move_granted_shape:
  assumes granted: "Add_roles u r \<in> set (fst (move api g m name))"
    and target: "get_teams_find api name = Inr b"
    and current: "get_current_team api (member_id m) = Inr a"
  shows "filter is_insertion (fst (move api g m name))
           = [Api (Post_team_user (tid b) (member_id m)
                     (py_str_bool (leader_scan False (member_id m) (users (cur_team a))))) None]
         \<and> snd (move api g m name) = None"
proof (cases "delete_team_user api (tid (cur_team a)) (cur_user_id a)")
  case (Inl status)
  with granted target current show ?thesis by (simp add: move_def after_def split: if_splits)
next
  case deleted: (Inr ok)
  show ?thesis
  proof (cases "get_role g (discord_role_id (cur_team a))")
    case None
    with granted target current deleted show ?thesis by (simp add: move_def after_def split: if_splits)
  next
    case old_role: (Some team_role)
    show ?thesis
    proof (cases "post_team_user api (tid b) (member_id m)
                    (py_str_bool (leader_scan False (member_id m) (users (cur_team a))))")
      case (Inl status)
      with granted target current deleted old_role show ?thesis
        by (simp add: move_def after_def Let_def split: if_splits)
    next
      case inserted: (Inr ok')
      show ?thesis
      proof (cases "get_role g (discord_role_id b)")
        case None
        with granted target current deleted old_role inserted show ?thesis
          by (simp add: move_def after_def Let_def split: if_splits)
      next
        case (Some new_role)
        with target current deleted old_role inserted show ?thesis
          by (simp add: move_def after_def Let_def split: if_splits)
      qed
    qed
  qed
qed

text \<open>
  C6. In a move that succeeds (the role of the target team is granted), where the member is
  listed in the membership list of the current team with one leader flag, there is one
  insertion request, it succeeded, and it puts the member into the target team with
  \<^verbatim>\<open>is_leader\<close> set to the text \<open>True\<close> for a leader and to the text \<open>False\<close> for a member who is
  no leader.
\<close>

theorem move_carries_leader_flag:
  assumes granted: "Add_roles (member_id m) r \<in> set (fst (move api g m name))"
    and target: "get_teams_find api name = Inr b"
    and current: "get_current_team api (member_id m) = Inr a"
    and listed: "e \<in> set (users (cur_team a))" "user_id e = member_id m"
    and agree: "\<forall>e' \<in> set (users (cur_team a)). user_id e' = member_id m \<longrightarrow> is_leader e' = is_leader e"
  shows "filter is_insertion (fst (move api g m name))
           = [Api (Post_team_user (tid b) (member_id m) (if is_leader e then ''True'' else ''False''))
                None]
         \<and> snd (move api g m name) = None"
proof -
  have "(\<exists>memb \<in> set (users (cur_team a)). user_id memb = member_id m \<and> is_leader memb)
          = is_leader e"
    using listed agree by blast
  then have scan: "leader_scan False (member_id m) (users (cur_team a)) = is_leader e"
    by (simp only: leader_scan_eq simp_thms)
  have flag: "py_str_bool (is_leader e) = (if is_leader e then ''True'' else ''False'')"
    by (simp add: py_str_bool_def)
  from move_granted_shape [OF granted target current] show ?thesis
    unfolding scan flag .
qed

text \<open>
  The theorem on a leader of Team A and on a member of Team A who is no leader, both moved
  to Team B.
\<close>

theorem move_carries_leader_flag_witness:
  "Add_roles (member_id alice) role_b \<in> set (fst (move working_api jam_guild alice ''Team B''))
   \<and> get_teams_find working_api ''Team B'' = Inr team_b
   \<and> get_current_team working_api (member_id alice) = Inr \<lparr>cur_team = team_a, cur_user_id = 1\<rparr>
   \<and> map is_leader (filter (\<lambda>e'. user_id e' = member_id alice) (users team_a)) = [True]
   \<and> filter is_insertion (fst (move working_api jam_guild alice ''Team B''))
       = [Api (Post_team_user 6 1 ''True'') None]
   \<and> Add_roles (member_id bob) role_b \<in> set (fst (move working_api jam_guild bob ''Team B''))
   \<and> get_current_team working_api (member_id bob) = Inr \<lparr>cur_team = team_a, cur_user_id = 2\<rparr>
   \<and> map is_leader (filter (\<lambda>e'. user_id e' = member_id bob) (users team_a)) = [False]
   \<and> filter is_insertion (fst (move working_api jam_guild bob ''Team B''))
       = [Api (Post_team_user 6 2 ''False'') None]"
proof -
  let ?ea = "\<lparr>user_id = 1, is_leader = True\<rparr>"
  let ?eb = "\<lparr>user_id = 2, is_leader = False\<rparr>"
  let ?a = "\<lparr>cur_team = team_a, cur_user_id = 1\<rparr>"
  let ?b = "\<lparr>cur_team = team_a, cur_user_id = 2\<rparr>"
  have t: "get_teams_find working_api ''Team B'' = Inr team_b" by (simp add: sample_defs)
  have ga: "Add_roles (member_id alice) role_b
              \<in> set (fst (move working_api jam_guild alice ''Team B''))"
    by (simp add: move_def after_def sample_defs)
  have ca: "get_current_team working_api (member_id alice) = Inr ?a" by (simp add: sample_defs)
  have la: "?ea \<in> set (users (cur_team ?a))" "user_id ?ea = member_id alice"
    by (simp_all add: sample_defs)
  have onlya: "map is_leader (filter (\<lambda>e'. user_id e' = member_id alice) (users team_a)) = [True]"
    by (simp add: sample_defs)
  have aga: "\<forall>e' \<in> set (users (cur_team ?a)).
              user_id e' = member_id alice \<longrightarrow> is_leader e' = is_leader ?ea"
    by (simp add: sample_defs)
  from move_carries_leader_flag [OF ga t ca la aga]
  have "filter is_insertion (fst (move working_api jam_guild alice ''Team B''))
       = [Api (Post_team_user (tid team_b) (member_id alice)
                 (if is_leader ?ea then ''True'' else ''False'')) None]"
    by (elim conjE)
  then have posta: "filter is_insertion (fst (move working_api jam_guild alice ''Team B''))
       = [Api (Post_team_user 6 1 ''True'') None]"
    by (simp add: team_b_def alice_def)
  have gb: "Add_roles (member_id bob) role_b
              \<in> set (fst (move working_api jam_guild bob ''Team B''))"
    by (simp add: move_def after_def sample_defs)
  have cb: "get_current_team working_api (member_id bob) = Inr ?b" by (simp add: sample_defs)
  have lb: "?eb \<in> set (users (cur_team ?b))" "user_id ?eb = member_id bob"
    by (simp_all add: sample_defs)
  have onlyb: "map is_leader (filter (\<lambda>e'. user_id e' = member_id bob) (users team_a)) = [False]"
    by (simp add: sample_defs)
  have agb: "\<forall>e' \<in> set (users (cur_team ?b)).
              user_id e' = member_id bob \<longrightarrow> is_leader e' = is_leader ?eb"
    by (simp add: sample_defs)
  from move_carries_leader_flag [OF gb t cb lb agb]
  have "filter is_insertion (fst (move working_api jam_guild bob ''Team B''))
       = [Api (Post_team_user (tid team_b) (member_id bob)
                 (if is_leader ?eb then ''True'' else ''False'')) None]"
    by (elim conjE)
  then have postb: "filter is_insertion (fst (move working_api jam_guild bob ''Team B''))
       = [Api (Post_team_user 6 2 ''False'') None]"
    by (simp add: team_b_def bob_def)
  from ga t ca onlya posta gb cb onlyb postb show ?thesis by (intro conjI)
qed

subsection \<open>remove\<close>

text \<open>
  A removal where the deletion of the membership record answers 404: the run ends with the
  message, and there is no role event in it, though the member holds the role of the team
  and a role named Team Leader.
\<close>

theorem remove_404_counterexample:
  "delete_team_user record_gone_api 5 1 = Inl 404
   \<and> remove ''Team Leader'' record_gone_api jam_guild alice
       = ([Api (Get_current_team 1) None, Api (Delete_team_user 5 1) (Some 404),
           Send could_not_be_found], None)
   \<and> filter is_role_event (fst (remove ''Team Leader'' record_gone_api jam_guild alice)) = []"
  by (simp add: remove_def after_def sample_defs)

text \<open>
  C3, as the code has it. When the deletion of the membership record answers 404,
  \<^verbatim>\<open>remove\<close> sends the message that the team or user could not be found and returns: no
  role is removed, and the member holds the roles held before.
\<close>

theorem remove_404_aborts:
  assumes "get_current_team api (member_id m) = Inr team"
    and "delete_team_user api (tid (cur_team team)) (cur_user_id team) = Inl 404"
  shows "remove TEAM_LEADER_ROLE_NAME api g m
           = ([Api (Get_current_team (member_id m)) None,
               Api (Delete_team_user (tid (cur_team team)) (cur_user_id team)) (Some 404),
               Send could_not_be_found], None)
         \<and> filter is_role_event (fst (remove TEAM_LEADER_ROLE_NAME api g m)) = []
         \<and> roles_after (member_id m) (member_roles m) (fst (remove TEAM_LEADER_ROLE_NAME api g m))
             = member_roles m"
proof -
  have run: "remove TEAM_LEADER_ROLE_NAME api g m
           = ([Api (Get_current_team (member_id m)) None,
               Api (Delete_team_user (tid (cur_team team)) (cur_user_id team)) (Some 404),
               Send could_not_be_found], None)"
    using assms by (simp add: remove_def after_def)
  have none: "filter is_role_event (fst (remove TEAM_LEADER_ROLE_NAME api g m)) = []"
    unfolding run by simp
  from run none roles_after_no_role_event [OF none] show ?thesis by simp
qed

text \<open>The theorem on the removal above.\<close>

theorem remove_404_aborts_witness:
  "get_current_team record_gone_api (member_id alice) = Inr \<lparr>cur_team = team_a, cur_user_id = 1\<rparr>
   \<and> delete_team_user record_gone_api (tid (cur_team \<lparr>cur_team = team_a, cur_user_id = 1\<rparr>))
        (cur_user_id \<lparr>cur_team = team_a, cur_user_id = 1\<rparr>) = Inl 404
   \<and> roles_after (member_id alice) (member_roles alice)
        (fst (remove ''Team Leader'' record_gone_api jam_guild alice)) = [role_a, leader_role]"
proof -
  let ?a = "\<lparr>cur_team = team_a, cur_user_id = 1\<rparr>"
  have c: "get_current_team record_gone_api (member_id alice) = Inr ?a" by (simp add: sample_defs)
  have d: "delete_team_user record_gone_api (tid (cur_team ?a)) (cur_user_id ?a) = Inl 404"
    by (simp add: sample_defs)
  have r: "member_roles alice = [role_a, leader_role]" by (simp add: alice_def)
  from remove_404_aborts [OF c d, of "''Team Leader''" jam_guild]
  have "roles_after (member_id alice) (member_roles alice)
        (fst (remove ''Team Leader'' record_gone_api jam_guild alice)) = member_roles alice"
    by (elim conjE)
  with c d show ?thesis unfolding r by (intro conjI)
qed

section \<open>Reading the roster\<close>

lemma upper_is_Y: "(py_upper flag = ''Y'') = (flag = ''Y'' \<or> flag = ''y'')"
proof
  assume "py_upper flag = ''Y''"
  then obtain c where c: "flag = [c]" "to_upper c = CHR ''Y''"
    by (auto simp: py_upper_def)
  from c(2) have "c = CHR ''Y'' \<or> c = CHR ''y''"
    by (auto simp: char_defs split: if_splits)
  with c(1) show "flag = ''Y'' \<or> flag = ''y''" by auto
next
  assume "flag = ''Y'' \<or> flag = ''y''"
  then show "py_upper flag = ''Y''" by (auto simp: py_upper_def char_defs)
qed

lemma keys_defaultdict_append:
  "fst ` set (defaultdict_append k v d) = insert k (fst ` set d)"
proof (induction d)
  case Nil
  show ?case by simp
next
  case (Cons p d)
  obtain k' vs where p: "p = (k', vs)" by (cases p)
  show ?case
    unfolding p using Cons.IH by (cases "k = k'") (simp_all add: insert_commute)
qed

lemma distinct_defaultdict_append:
  "distinct (map fst d) \<Longrightarrow> distinct (map fst (defaultdict_append k v d))"
proof (induction d)
  case Nil
  show ?case by simp
next
  case (Cons p d)
  obtain k' vs where p: "p = (k', vs)" by (cases p)
  from Cons show ?case
    unfolding p by (cases "k = k'") (simp_all add: keys_defaultdict_append)
qed

lemma map_of_defaultdict_append:
  "map_of (defaultdict_append k v d) k' =
     (if k' = k then Some ((case map_of d k of None \<Rightarrow> [] | Some vs \<Rightarrow> vs) @ [v])
      else map_of d k')"
  by (induction d) auto

lemma filled_defaultdict_append:
  "\<forall>p \<in> set d. snd p \<noteq> [] \<Longrightarrow> \<forall>p \<in> set (defaultdict_append k v d). snd p \<noteq> []"
proof (induction d)
  case Nil
  show ?case by simp
next
  case (Cons p d)
  obtain k' vs where p: "p = (k', vs)" by (cases p)
  from Cons show ?case
    unfolding p by (cases "k = k'") simp_all
qed

lemma grouped_simps:
  "grouped acc [] = acc"
  "grouped acc (p # ps) = grouped (defaultdict_append (fst p) (snd p) acc) ps"
  by (simp_all add: grouped_def)

lemma keys_grouped: "fst ` set (grouped acc ps) = fst ` set acc \<union> fst ` set ps"
proof (induction ps arbitrary: acc)
  case Nil
  show ?case by (simp add: grouped_simps)
next
  case (Cons p ps)
  show ?case
    unfolding grouped_simps Cons.IH keys_defaultdict_append by auto
qed

lemma distinct_grouped: "distinct (map fst acc) \<Longrightarrow> distinct (map fst (grouped acc ps))"
  by (induction ps arbitrary: acc) (simp_all add: grouped_simps distinct_defaultdict_append)

lemma filled_grouped:
  "\<forall>p \<in> set acc. snd p \<noteq> [] \<Longrightarrow> \<forall>p \<in> set (grouped acc ps). snd p \<noteq> []"
proof (induction ps arbitrary: acc)
  case Nil
  then show ?case by (simp add: grouped_simps)
next
  case (Cons p ps)
  from filled_defaultdict_append [OF Cons.prems]
  have "\<forall>q \<in> set (defaultdict_append (fst p) (snd p) acc). snd q \<noteq> []" .
  from Cons.IH [OF this] show ?case by (simp add: grouped_simps)
qed

lemma entries_of_simps:
  "entries_of k [] = []"
  "entries_of k (p # ps) = (if fst p = k then snd p # entries_of k ps else entries_of k ps)"
  by (simp_all add: entries_of_def)

lemma entries_of_absent: "k \<notin> fst ` set ps \<Longrightarrow> entries_of k ps = []"
  by (induction ps) (auto simp: entries_of_simps)

lemma map_of_grouped:
  "map_of (grouped acc ps) k =
     (if k \<in> fst ` set acc \<union> fst ` set ps
      then Some ((case map_of acc k of None \<Rightarrow> [] | Some vs \<Rightarrow> vs) @ entries_of k ps)
      else None)"
proof (induction ps arbitrary: acc)
  case Nil
  show ?case
  proof (cases "map_of acc k")
    case None
    then show ?thesis by (simp add: grouped_simps map_of_eq_None_iff)
  next
    case (Some vs)
    then have "(k, vs) \<in> set acc" by (rule map_of_SomeD)
    then have "k \<in> fst ` set acc" by force
    with Some show ?thesis by (simp add: grouped_simps entries_of_simps)
  qed
next
  case (Cons p ps)
  show ?case
  proof (cases "fst p = k")
    case True
    then show ?thesis
      unfolding grouped_simps Cons.IH
      by (simp add: map_of_defaultdict_append keys_defaultdict_append entries_of_simps)
  next
    case False
    then have "(k \<in> insert (fst p) (fst ` set acc) \<union> fst ` set ps)
               = (k \<in> fst ` set acc \<union> fst ` set (p # ps))"
      by auto
    with False show ?thesis
      unfolding grouped_simps Cons.IH keys_defaultdict_append
      by (simp add: map_of_defaultdict_append entries_of_simps)
  qed
qed

lemma mem_roster:
  "p \<in> set (roster to_int g rows) \<longleftrightarrow> (\<exists>row \<in> set rows. roster_row to_int g row = Some p)"
  unfolding roster_def by (induction rows) (auto split: option.splits)

lemma create_rows_grouped:
  "create_rows to_int g acc rows = Inr teams \<Longrightarrow> teams = grouped acc (roster to_int g rows)"
proof (induction rows arbitrary: acc)
  case Nil
  then show ?case by (simp add: roster_def grouped_simps List.map_filter_simps)
next
  case (Cons row rows)
  from Cons.prems show ?case
    by (auto simp: roster_def List.map_filter_simps roster_row_def resolved_member_def
                   grouped_simps upper_is_Y
             split: option.splits dest!: Cons.IH)
qed

lemma create_rows_reads_resolved:
  "create_rows to_int g acc rows = Inr teams \<Longrightarrow> row \<in> set rows \<Longrightarrow> resolved_member to_int g row \<noteq> None \<Longrightarrow>
   roster_row to_int g row \<noteq> None"
proof (induction rows arbitrary: acc)
  case Nil
  then show ?case by simp
next
  case (Cons r rows)
  from Cons.prems show ?case
    by (auto simp: roster_row_def resolved_member_def split: option.splits dest: Cons.IH)
qed

lemma roster_row_key:
  "roster_row to_int g row = Some (k, e) \<Longrightarrow> row ''Team Name'' = Some k \<and> resolved_member to_int g row \<noteq> None"
  by (auto simp: roster_row_def split: option.splits)

lemma create_rows_skips:
  "unresolvable to_int g row \<Longrightarrow>
   create_rows to_int g acc (pre @ row # post) = create_rows to_int g acc (pre @ post)"
proof (induction pre arbitrary: acc)
  case Nil
  then show ?case by (auto simp: unresolvable_def split: option.splits)
next
  case (Cons r pre)
  then show ?case by (auto split: option.splits)
qed

lemma create_rows_keys:
  assumes "create_rows to_int g [] rows = Inr teams"
  shows "(k \<in> set (map fst teams))
           = (\<exists>row \<in> set rows. row ''Team Name'' = Some k \<and> resolved_member to_int g row \<noteq> None)"
proof
  assume "k \<in> set (map fst teams)"
  then have "k \<in> fst ` set (roster to_int g rows)"
    using create_rows_grouped [OF assms] keys_grouped [of "[]" "roster to_int g rows"] by simp
  then obtain e row where "row \<in> set rows" "roster_row to_int g row = Some (k, e)"
    by (auto simp: mem_roster)
  then show "\<exists>row \<in> set rows. row ''Team Name'' = Some k \<and> resolved_member to_int g row \<noteq> None"
    using roster_row_key by blast
next
  assume "\<exists>row \<in> set rows. row ''Team Name'' = Some k \<and> resolved_member to_int g row \<noteq> None"
  then obtain row where row: "row \<in> set rows" "row ''Team Name'' = Some k"
      "resolved_member to_int g row \<noteq> None" by blast
  from create_rows_reads_resolved [OF assms row(1) row(3)]
  obtain k' e where r: "roster_row to_int g row = Some (k', e)" by auto
  with roster_row_key [OF r] row(2) have "roster_row to_int g row = Some (k, e)" by simp
  with row(1) have "(k, e) \<in> set (roster to_int g rows)"
    unfolding mem_roster by blast
  then have "k \<in> fst ` set (roster to_int g rows)" by force
  then show "k \<in> set (map fst teams)"
    using create_rows_grouped [OF assms] keys_grouped [of "[]" "roster to_int g rows"] by simp
qed

lemma plain_decimal_samples:
  "plain_decimal ''1'' = Some 1" "plain_decimal ''2'' = Some 2"
  "plain_decimal ''3'' = Some 3" "plain_decimal ''99'' = Some 99"
  by (simp_all add: plain_decimal_def)

lemma sample_roster_parsed: "create_rows plain_decimal jam_guild [] sample_roster = Inr sample_teams"
  by (simp add: sample_roster_def sample_teams_def roster_line_def jam_guild_def
        plain_decimal_samples py_upper_def char_defs)

text \<open>
  C5. When the loop of \<^verbatim>\<open>create\<close> reads a roster to its end, the teams it built are the
  roster's rows grouped by team name: each key once, and under each key the entries of the
  rows of that team whose member resolves, in the order of the rows, a row's leader flag
  being true iff its Team Leader field is \<open>Y\<close> in either case. A row whose member id does not
  resolve has no entry, and without that row the result is the same, so the row creates no
  key.
\<close>

theorem create_rows_groups_roster:
  assumes "create_rows to_int g [] rows = Inr teams"
  shows "distinct (map fst teams)
         \<and> (\<forall>k. map_of teams k
                  = (if k \<in> fst ` set (roster to_int g rows) then Some (entries_of k (roster to_int g rows))
                     else None))
         \<and> (\<forall>row \<in> set rows. unresolvable to_int g row \<longrightarrow> roster_row to_int g row = None)
         \<and> (\<forall>pre row post. rows = pre @ row # post \<and> unresolvable to_int g row \<longrightarrow>
               create_rows to_int g [] (pre @ post) = Inr teams)"
proof (intro conjI allI ballI impI)
  note grouped = create_rows_grouped [OF assms]
  show "distinct (map fst teams)"
    unfolding grouped by (rule distinct_grouped) simp
  show "map_of teams k
          = (if k \<in> fst ` set (roster to_int g rows) then Some (entries_of k (roster to_int g rows)) else None)"
    for k
    unfolding grouped map_of_grouped by simp
next
  fix row assume "unresolvable to_int g row"
  then show "roster_row to_int g row = None"
    by (auto simp: unresolvable_def roster_row_def resolved_member_def split: option.splits)
next
  fix pre row post assume "rows = pre @ row # post \<and> unresolvable to_int g row"
  with assms create_rows_skips [of to_int g row "[]" pre post]
  show "create_rows to_int g [] (pre @ post) = Inr teams" by simp
qed

text \<open>
  The theorem on a roster of four rows: team A with two members, one of them leader, team B
  with one member, and a row of team C whose member id is unknown.
\<close>

theorem create_rows_groups_roster_witness:
  "create_rows plain_decimal jam_guild [] sample_roster = Inr sample_teams
   \<and> length sample_teams = 2
   \<and> map_of sample_teams (Some ''A'')
       = Some [\<lparr>entry_member = alice, entry_is_leader = True\<rparr>,
               \<lparr>entry_member = bob, entry_is_leader = False\<rparr>]
   \<and> map_of sample_teams (Some ''B'') = Some [\<lparr>entry_member = carol, entry_is_leader = False\<rparr>]
   \<and> map_of sample_teams (Some ''C'') = None
   \<and> sample_roster = [roster_line ''A'' ''1'' ''y''] @ roster_line ''C'' ''99'' ''Y''
                        # [roster_line ''B'' ''3'' ''N'', roster_line ''A'' ''2'' '''']
   \<and> unresolvable plain_decimal jam_guild (roster_line ''C'' ''99'' ''Y'')
   \<and> create_rows plain_decimal jam_guild []
        ([roster_line ''A'' ''1'' ''y''] @ [roster_line ''B'' ''3'' ''N'', roster_line ''A'' ''2'' ''''])
       = Inr sample_teams"
proof -
  note spec = create_rows_groups_roster [OF sample_roster_parsed]
  have split: "sample_roster = [roster_line ''A'' ''1'' ''y''] @ roster_line ''C'' ''99'' ''Y''
                        # [roster_line ''B'' ''3'' ''N'', roster_line ''A'' ''2'' '''']"
    by (simp add: sample_roster_def)
  have ghost: "unresolvable plain_decimal jam_guild (roster_line ''C'' ''99'' ''Y'')"
    by (simp add: unresolvable_def roster_line_def jam_guild_def plain_decimal_samples)
  from spec have "\<forall>pre row post. sample_roster = pre @ row # post \<and> unresolvable plain_decimal jam_guild row \<longrightarrow>
               create_rows plain_decimal jam_guild [] (pre @ post) = Inr sample_teams"
    by (elim conjE)
  with split ghost have without: "create_rows plain_decimal jam_guild []
        ([roster_line ''A'' ''1'' ''y''] @ [roster_line ''B'' ''3'' ''N'', roster_line ''A'' ''2'' ''''])
       = Inr sample_teams"
    by blast
  have maps: "length sample_teams = 2"
    "map_of sample_teams (Some ''A'')
       = Some [\<lparr>entry_member = alice, entry_is_leader = True\<rparr>,
               \<lparr>entry_member = bob, entry_is_leader = False\<rparr>]"
    "map_of sample_teams (Some ''B'') = Some [\<lparr>entry_member = carol, entry_is_leader = False\<rparr>]"
    "map_of sample_teams (Some ''C'') = None"
    by (simp_all add: sample_teams_def)
  from sample_roster_parsed maps split ghost without show ?thesis by (intro conjI)
qed

text \<open>
  A roster of one row, for team C, whose member id does not resolve: the teams have no key,
  and the operator is told of 0 teams.
\<close>

theorem create_drops_team_without_members_counterexample:
  "roster_line ''C'' ''99'' ''Y'' ''Team Name'' = Some (Some ''C'')
   \<and> create_rows plain_decimal jam_guild [] [roster_line ''C'' ''99'' ''Y''] = Inr []
   \<and> create plain_decimal jam_guild 1 [roster_line ''C'' ''99'' ''Y'']
       = ([Send_view
             \<lparr>title = ''Warning!'', embed_colour = Orange,
              description = Some ''0 teams, and roles will be created, are you sure?'',
              embed_fields = [], footer = Some ''Code Jam team generation''\<rparr>
             (new_confirmation (Creation_args []) 1)], None)"
  by (simp add: create_def roster_line_def jam_guild_def plain_decimal_samples str_nat.simps
        digit_char_def)

text \<open>
  C2, as the code has it. When the loop of \<^verbatim>\<open>create\<close> reads a roster to its end, a team
  name is a key of the teams iff a row of that name has a member id that resolves; no key has
  an empty list; and the number the operator is shown is the number of those team names.
\<close>

theorem create_counts_teams_with_members:
  assumes "create_rows to_int g [] rows = Inr teams"
  shows "(\<forall>k. (k \<in> fst ` set teams)
               = (\<exists>row \<in> set rows. row ''Team Name'' = Some k \<and> resolved_member to_int g row \<noteq> None))
         \<and> (\<forall>p \<in> set teams. snd p \<noteq> [])
         \<and> length teams
             = card {k. \<exists>row \<in> set rows. row ''Team Name'' = Some k \<and> resolved_member to_int g row \<noteq> None}
         \<and> create to_int g author rows
             = ([Send_view
                   \<lparr>title = ''Warning!'', embed_colour = Orange,
                    description = Some (str_nat (length teams)
                                        @ '' teams, and roles will be created, are you sure?''),
                    embed_fields = [], footer = Some ''Code Jam team generation''\<rparr>
                   (new_confirmation (Creation_args teams) author)], None)"
proof (intro conjI allI)
  note grouped = create_rows_grouped [OF assms]
  show keys: "(k \<in> fst ` set teams)
               = (\<exists>row \<in> set rows. row ''Team Name'' = Some k \<and> resolved_member to_int g row \<noteq> None)"
    for k
    using create_rows_keys [OF assms, of k] by simp
  show "\<forall>p \<in> set teams. snd p \<noteq> []"
    unfolding grouped by (rule filled_grouped) simp
  have "distinct (map fst teams)"
    unfolding grouped by (rule distinct_grouped) simp
  then have "length teams = card (fst ` set teams)"
    using distinct_card [of "map fst teams"] by simp
  also have "fst ` set teams
      = {k. \<exists>row \<in> set rows. row ''Team Name'' = Some k \<and> resolved_member to_int g row \<noteq> None}"
    using keys by blast
  finally show "length teams
      = card {k. \<exists>row \<in> set rows. row ''Team Name'' = Some k \<and> resolved_member to_int g row \<noteq> None}" .
  show "create to_int g author rows
             = ([Send_view
                   \<lparr>title = ''Warning!'', embed_colour = Orange,
                    description = Some (str_nat (length teams)
                                        @ '' teams, and roles will be created, are you sure?''),
                    embed_fields = [], footer = Some ''Code Jam team generation''\<rparr>
                   (new_confirmation (Creation_args teams) author)], None)"
    by (simp add: create_def assms)
qed

text \<open>The theorem on the roster of four rows: team C is not counted.\<close>

theorem create_counts_teams_with_members_witness:
  "create_rows plain_decimal jam_guild [] sample_roster = Inr sample_teams
   \<and> roster_line ''C'' ''99'' ''Y'' \<in> set sample_roster
   \<and> Some ''C'' \<notin> fst ` set sample_teams
   \<and> \<not> (\<exists>row \<in> set sample_roster.
           row ''Team Name'' = Some (Some ''C'') \<and> resolved_member plain_decimal jam_guild row \<noteq> None)
   \<and> create plain_decimal jam_guild 1 sample_roster
       = ([Send_view
             \<lparr>title = ''Warning!'', embed_colour = Orange,
              description = Some ''2 teams, and roles will be created, are you sure?'',
              embed_fields = [], footer = Some ''Code Jam team generation''\<rparr>
             (new_confirmation (Creation_args sample_teams) 1)], None)"
proof -
  note spec = create_counts_teams_with_members [OF sample_roster_parsed, of 1]
  have listed: "roster_line ''C'' ''99'' ''Y'' \<in> set sample_roster"
    by (simp add: sample_roster_def)
  have absent: "Some ''C'' \<notin> fst ` set sample_teams"
    by (simp add: sample_teams_def)
  from spec have "\<forall>k. (k \<in> fst ` set sample_teams)
               = (\<exists>row \<in> set sample_roster.
                    row ''Team Name'' = Some k \<and> resolved_member plain_decimal jam_guild row \<noteq> None)"
    by (elim conjE)
  with absent have none: "\<not> (\<exists>row \<in> set sample_roster.
           row ''Team Name'' = Some (Some ''C'') \<and> resolved_member plain_decimal jam_guild row \<noteq> None)"
    by blast
  have two: "str_nat (length sample_teams) = ''2''"
    by (simp add: sample_teams_def str_nat.simps digit_char_def)
  from spec have "create plain_decimal jam_guild 1 sample_roster
             = ([Send_view
                   \<lparr>title = ''Warning!'', embed_colour = Orange,
                    description = Some (str_nat (length sample_teams)
                                        @ '' teams, and roles will be created, are you sure?''),
                    embed_fields = [], footer = Some ''Code Jam team generation''\<rparr>
                   (new_confirmation (Creation_args sample_teams) 1)], None)"
    by (elim conjE)
  then have shown: "create plain_decimal jam_guild 1 sample_roster
       = ([Send_view
             \<lparr>title = ''Warning!'', embed_colour = Orange,
              description = Some ''2 teams, and roles will be created, are you sure?'',
              embed_fields = [], footer = Some ''Code Jam team generation''\<rparr>
             (new_confirmation (Creation_args sample_teams) 1)], None)"
    unfolding two by simp
  from sample_roster_parsed listed absent none shown show ?thesis by (intro conjI)
qed

end
